theory Spec2Isabelle
  imports Complex_Main "HOL-Library.Sublist" "HOL-Library.Multiset"
begin

section \<open>The census table\<close>

text \<open>
  The script \<^verbatim>\<open>app.py\<close> reads \<^verbatim>\<open>india.csv\<close> into a pandas data frame and works on
  it row by row. A row is a record with the columns the script names: the two
  identifiers, the two coordinates and the seventeen numeric columns of
  \<^verbatim>\<open>primary_columns\<close>. A data frame is the list of its rows in file order.
  Numeric cells are real numbers: the integer and the floating-point columns of the file
  are read as the numbers they denote, and a table has no missing cell.
\<close>

record census_record =
  State :: string
  District :: string
  Latitude :: real
  Longitude :: real
  Population :: real
  Male :: real
  Female :: real
  Sex_Ratio :: real
  Literate :: real
  Male_Literate :: real
  Female_Literate :: real
  Literacy_Rate :: real
  Female_Literacy_Rate :: real
  SC :: real
  ST :: real
  SC_Proportion :: real
  ST_Proportion :: real
  Total_Power_Parity :: real
  Power_Parity_Above_Rs_545000 :: real
  Housholds_with_Electric_Lighting :: real
  Having_latrine_facility_within_the_premises_Total_Households :: real

type_synonym dataframe = "census_record list"

text \<open>The numeric columns, by name, in the order of the record.\<close>

definition numeric_columns :: "(string \<times> (census_record \<Rightarrow> real)) list" where
  "numeric_columns =
     [(''Latitude'', Latitude), (''Longitude'', Longitude),
      (''Population'', Population), (''Male'', Male), (''Female'', Female),
      (''Sex_Ratio'', Sex_Ratio), (''Literate'', Literate),
      (''Male_Literate'', Male_Literate), (''Female_Literate'', Female_Literate),
      (''Literacy_Rate'', Literacy_Rate),
      (''Female_Literacy_Rate'', Female_Literacy_Rate),
      (''SC'', SC), (''ST'', ST),
      (''SC_Proportion'', SC_Proportion), (''ST_Proportion'', ST_Proportion),
      (''Total_Power_Parity'', Total_Power_Parity),
      (''Power_Parity_Above_Rs_545000'', Power_Parity_Above_Rs_545000),
      (''Housholds_with_Electric_Lighting'', Housholds_with_Electric_Lighting),
      (''Having_latrine_facility_within_the_premises_Total_Households'',
         Having_latrine_facility_within_the_premises_Total_Households)]"

text \<open>\<^verbatim>\<open>state_df.select_dtypes(include=[np.number]).columns\<close>\<close>

definition numerical_cols :: "string list" where
  "numerical_cols = map fst numeric_columns"

text \<open>
  \<^verbatim>\<open>frame[name]\<close> for a numeric column: the column as a function of the row, and
  no column (pandas raises KeyError) for any other name.
\<close>

definition column :: "string \<Rightarrow> (census_record \<Rightarrow> real) option" where
  "column name = map_of numeric_columns name"

definition primary_columns :: "string list" where
  "primary_columns =
     [''Population'', ''Male'', ''Female'', ''Sex_Ratio'', ''Literate'', ''Male_Literate'',
      ''Female_Literate'', ''Literacy_Rate'', ''Female_Literacy_Rate'', ''SC'', ''ST'',
      ''SC_Proportion'', ''ST_Proportion'', ''Total_Power_Parity'',
      ''Power_Parity_Above_Rs_545000'', ''Housholds_with_Electric_Lighting'',
      ''Having_latrine_facility_within_the_premises_Total_Households'']"

definition secondary_columns :: "string list" where
  "secondary_columns = primary_columns @ [''State'', ''District'']"

section \<open>Filters\<close>

text \<open>
  \<^verbatim>\<open>filtered_df = df[df['Population'] >= min_population]\<close>
  \<^verbatim>\<open>filtered_df = filtered_df[filtered_df['Literacy_Rate'] >= min_literacy]\<close>

  Indexing a frame with a boolean mask keeps the rows where the mask holds, in order.
  The population slider yields an integer, the literacy slider a float.
\<close>

definition apply_filters :: "dataframe \<Rightarrow> int \<Rightarrow> real \<Rightarrow> dataframe" where
  "apply_filters df min_population min_literacy =
     (let filtered_df = filter (\<lambda>r. Population r \<ge> of_int min_population) df
      in filter (\<lambda>r. Literacy_Rate r \<ge> min_literacy) filtered_df)"

section \<open>Region scope\<close>

text \<open>
  The first lines of the map tab bind \<^verbatim>\<open>state_df\<close>, \<^verbatim>\<open>zoom\<close> and \<^verbatim>\<open>title\<close>:
  the whole filtered table for \<^verbatim>\<open>"Overall India"\<close>, the rows of the selected state
  otherwise.
\<close>

definition region_scope :: "dataframe \<Rightarrow> string \<Rightarrow> dataframe \<times> nat \<times> string" where
  "region_scope filtered_df selected_state =
     (if selected_state = ''Overall India'' then (filtered_df, 3, ''Overall India'')
      else (filter (\<lambda>r. State r = selected_state) filtered_df, 6, selected_state))"

section \<open>What the page shows\<close>

text \<open>
  Every Streamlit call that puts something on the page is a widget value, recorded with
  the container it is written to. A run of the script yields the widgets in the order of
  the calls, and the exception that ended the run, if one did.
\<close>

datatype chart_kind = Bar | Pie | Box

datatype container = Page | Tab1 | Tab2 | Tab3

datatype cell = Txt string | Num real

datatype widget =
    Text string
  | Expander string
  | Warning string
  | Subheader string
  | ScatterMap dataframe string string nat string
  | BarChart dataframe string string string string
  | PieChart dataframe string string string
  | BoxChart dataframe string string string string
  | Heatmap "real option list list" "string list"
  | Metric string "real option"
  | Table "(string \<times> real) list"
  | DownloadButton string "cell list list" string string
  | RawData dataframe

datatype interruption = RerunException | NameError string | KeyError string | ValueError

record outcome =
  shown :: "(container \<times> widget) list"
  raised :: "interruption option"

definition in_container :: "container \<Rightarrow> widget list \<Rightarrow> (container \<times> widget) list" where
  "in_container c ws = map (Pair c) ws"

section \<open>Map tab\<close>

text \<open>
  \<^verbatim>\<open>ScatterMap data color size zoom title\<close> is the figure of \<^verbatim>\<open>px.scatter_mapbox\<close>
  handed to \<^verbatim>\<open>st.plotly_chart\<close>. The block leaves \<^verbatim>\<open>state_df\<close> bound; it is
  returned with the widgets.
\<close>

definition map_tab :: "dataframe \<Rightarrow> string \<Rightarrow> string \<Rightarrow> string \<Rightarrow> dataframe \<times> widget list" where
  "map_tab filtered_df selected_state primary secondary =
     (let (state_df, zoom, title) = region_scope filtered_df selected_state
      in (state_df,
          if state_df = [] then
            [Warning (''No data available for '' @ selected_state @ '' with the current filters.'')]
          else [ScatterMap state_df secondary primary zoom title]))"

section \<open>Charts tab\<close>

text \<open>
  \<^verbatim>\<open>BarChart data x y title color\<close>, \<^verbatim>\<open>PieChart data names values title\<close> and
  \<^verbatim>\<open>BoxChart data x y title color\<close> are the figures of \<^verbatim>\<open>px.bar\<close>, \<^verbatim>\<open>px.pie\<close>
  and \<^verbatim>\<open>px.box\<close>. The chart type is one of the three options of its select box.
\<close>

definition charts_tab :: "string \<Rightarrow> dataframe \<Rightarrow> string \<Rightarrow> string \<Rightarrow> chart_kind \<Rightarrow> widget list" where
  "charts_tab selected_state state_df primary secondary chart_type =
     (if selected_state \<noteq> ''Overall India'' \<and> state_df \<noteq> [] then
        (case chart_type of
           Bar \<Rightarrow>
             [Subheader (primary @ '' by District in '' @ selected_state),
              BarChart state_df ''District'' primary (primary @ '' in '' @ selected_state) secondary]
         | Pie \<Rightarrow>
             [Subheader (primary @ '' Distribution in '' @ selected_state),
              PieChart state_df ''District'' primary (primary @ '' Distribution in '' @ selected_state)]
         | Box \<Rightarrow>
             [Subheader (primary @ '' Distribution in '' @ selected_state),
              BoxChart state_df ''State'' primary (primary @ '' Distribution in '' @ selected_state)
                secondary])
      else [Warning ''Charts are available only for specific states, not 'Overall India'.''])"

section \<open>Summary tab\<close>

text \<open>
  \<^verbatim>\<open>DataFrame.corr()\<close> is Pearson's coefficient for every pair of columns: the
  covariance of the two columns over the square root of the product of their sums of
  squared deviations. pandas yields NaN, here \<open>None\<close>, when there is no row or when that
  divisor is zero.
\<close>

definition pearson :: "real list \<Rightarrow> real list \<Rightarrow> real option" where
  "pearson xs ys =
     (let nobs = real (length xs);
          meanx = sum_list xs / nobs;
          meany = sum_list ys / nobs;
          ssqdmx = (\<Sum>x\<leftarrow>xs. (x - meanx) * (x - meanx));
          ssqdmy = (\<Sum>y\<leftarrow>ys. (y - meany) * (y - meany));
          covxy = (\<Sum>(x, y)\<leftarrow>zip xs ys. (x - meanx) * (y - meany));
          divisor = sqrt (ssqdmx * ssqdmy)
      in if xs = [] \<or> divisor = 0 then None else Some (covxy / divisor))"

definition corr :: "dataframe \<Rightarrow> real option list list" where
  "corr frame =
     map (\<lambda>(_, x). map (\<lambda>(_, y). pearson (map x frame) (map y frame)) numeric_columns)
       numeric_columns"

definition short_names :: "(string \<times> string) list" where
  "short_names =
     [(''Population'', ''Pop''), (''Male'', ''M''), (''Female'', ''F''),
      (''Sex_Ratio'', ''SexRatio''), (''Literate'', ''Lit''), (''Male_Literate'', ''MLit''),
      (''Female_Literate'', ''FLit''), (''Literacy_Rate'', ''LitRate''),
      (''Female_Literacy_Rate'', ''FLitRate''), (''SC'', ''SC''), (''ST'', ''ST''),
      (''SC_Proportion'', ''SCProp''), (''ST_Proportion'', ''STProp''),
      (''Total_Power_Parity'', ''PowerParity''),
      (''Power_Parity_Above_Rs_545000'', ''HighParity''),
      (''Housholds_with_Electric_Lighting'', ''ElecLight''),
      (''Having_latrine_facility_within_the_premises_Total_Households'', ''Latrine'')]"

text \<open>\<^verbatim>\<open>short_names.get(col, col)\<close>\<close>

definition short_label :: "string \<Rightarrow> string" where
  "short_label col = (case map_of short_names col of Some s \<Rightarrow> s | None \<Rightarrow> col)"

definition correlation_heatmap :: "dataframe \<Rightarrow> widget list" where
  "correlation_heatmap state_df =
     Subheader ''Correlation Heatmap (Numerical Columns)'' #
     (if length numerical_cols > 1 then
        [Heatmap (corr state_df) (map short_label numerical_cols)]
      else [Warning ''Not enough numerical columns for correlation heatmap.''])"

text \<open>
  \<^verbatim>\<open>Series.sum()\<close> and \<^verbatim>\<open>Series.mean()\<close>; the mean of no value is NaN. The metric
  cards format these numbers for display; a \<^verbatim>\<open>Metric\<close> widget carries the number.
\<close>

definition series_sum :: "real list \<Rightarrow> real" where
  "series_sum xs = sum_list xs"

definition series_mean :: "real list \<Rightarrow> real option" where
  "series_mean xs = (if xs = [] then None else Some (sum_list xs / real (length xs)))"

text \<open>
  \<^verbatim>\<open>frame.nlargest(n, column)\<close> with the default \<^verbatim>\<open>keep='first'\<close>: the first \<open>n\<close>
  rows in descending order of the column, a row that comes first in the frame winning a
  tie. pandas negates the column and sorts it with a stable sort.
\<close>

definition nlargest :: "nat \<Rightarrow> ('a \<Rightarrow> real) \<Rightarrow> 'a list \<Rightarrow> 'a list" where
  "nlargest n key frame = take n (sort_key (\<lambda>r. - key r) frame)"

text \<open>\<^verbatim>\<open>top_districts = state_df.nlargest(5, primary)[['District', primary]]\<close>\<close>

definition top_districts :: "string \<Rightarrow> dataframe \<Rightarrow> interruption + (string \<times> real) list" where
  "top_districts primary state_df =
     (case column primary of
        None \<Rightarrow> Inl (KeyError primary)
      | Some key \<Rightarrow> Inr (map (\<lambda>r. (District r, key r)) (nlargest 5 key state_df)))"

definition summary_stats ::
    "string \<Rightarrow> string \<Rightarrow> dataframe \<Rightarrow> dataframe \<Rightarrow> widget list \<times> interruption option" where
  "summary_stats selected_state primary filtered_df state_df =
     (if selected_state \<noteq> ''Overall India'' \<and> state_df \<noteq> [] then
        (let cards =
               [Subheader (''Summary for '' @ selected_state),
                Metric ''Total Population'' (Some (series_sum (map Population state_df))),
                Metric ''Average Literacy Rate'' (series_mean (map Literacy_Rate state_df)),
                Metric ''Total Districts'' (Some (real (length state_df))),
                Subheader (''Top 5 Districts by '' @ primary)]
         in case top_districts primary state_df of
              Inl e \<Rightarrow> (cards, Some e)
            | Inr top5 \<Rightarrow> (cards @ [Table top5], None))
      else
        ([Subheader ''Summary for Overall India'',
          Metric ''Total Population'' (Some (series_sum (map Population filtered_df))),
          Metric ''Average Literacy Rate'' (series_mean (map Literacy_Rate filtered_df)),
          Metric ''Total Districts'' (Some (real (length filtered_df)))], None))"

definition summary_tab ::
    "string \<Rightarrow> string \<Rightarrow> dataframe \<Rightarrow> dataframe \<Rightarrow> widget list \<times> interruption option" where
  "summary_tab selected_state primary filtered_df state_df =
     (let (stats, err) = summary_stats selected_state primary filtered_df state_df
      in (correlation_heatmap state_df @ stats, err))"

section \<open>Download\<close>

text \<open>
  \<^verbatim>\<open>state_df.to_csv(index=False)\<close>: the header row, then one row for each row of the
  frame, in order, each cell in its column.
\<close>

definition csv_header :: "cell list" where
  "csv_header = map Txt ([''State'', ''District''] @ numerical_cols)"

definition csv_row :: "census_record \<Rightarrow> cell list" where
  "csv_row r = [Txt (State r), Txt (District r)] @ map (\<lambda>(_, x). Num (x r)) numeric_columns"

definition to_csv :: "dataframe \<Rightarrow> cell list list" where
  "to_csv frame = csv_header # map csv_row frame"

text \<open>
  The download check reads the name \<^verbatim>\<open>state_df\<close>. The name is bound only by the map
  tab, so it is passed as an option: \<open>None\<close> when no assignment was executed, and then
  reading it raises NameError.
\<close>

definition download_button ::
    "dataframe option \<Rightarrow> string \<Rightarrow> widget list \<times> interruption option" where
  "download_button state_df_binding selected_state =
     (case state_df_binding of
        None \<Rightarrow> ([], Some (NameError ''state_df''))
      | Some state_df \<Rightarrow>
          (if state_df \<noteq> [] then
             [DownloadButton ''Download Filtered Data'' (to_csv state_df)
                (selected_state @ ''_filtered_data.csv'') ''text/csv'']
           else [], None))"

section \<open>Plotting logic\<close>

text \<open>
  The block under \<^verbatim>\<open>if plot:\<close>. The three tabs are written only when the filtered
  table has a row; the download check follows the \<^verbatim>\<open>if\<close>/\<^verbatim>\<open>else\<close> and runs on both
  paths.
\<close>

definition render_tabs ::
    "dataframe \<Rightarrow> string \<Rightarrow> string \<Rightarrow> string \<Rightarrow> chart_kind \<Rightarrow>
       dataframe option \<times> (container \<times> widget) list \<times> interruption option" where
  "render_tabs filtered_df selected_state primary secondary chart_type =
     (if filtered_df = [] then
        (None,
         [(Page, Warning ''No data matches the selected filters. Please adjust the filters.'')],
         None)
      else
        (let (state_df, tab1_widgets) = map_tab filtered_df selected_state primary secondary;
             tab2_widgets = charts_tab selected_state state_df primary secondary chart_type;
             (tab3_widgets, err) = summary_tab selected_state primary filtered_df state_df
         in (Some state_df,
             in_container Tab1 tab1_widgets @ in_container Tab2 tab2_widgets @ in_container Tab3 tab3_widgets,
             err)))"

definition plotting_logic ::
    "dataframe \<Rightarrow> string \<Rightarrow> string \<Rightarrow> string \<Rightarrow> chart_kind \<Rightarrow> bool \<Rightarrow> outcome" where
  "plotting_logic filtered_df selected_state primary secondary chart_type plot =
     (if plot then
        (let (state_df_binding, views, err) =
               render_tabs filtered_df selected_state primary secondary chart_type
         in case err of
              Some e \<Rightarrow> \<lparr>shown = views, raised = Some e\<rparr>
            | None \<Rightarrow>
                (let (button, err') = download_button state_df_binding selected_state
                 in \<lparr>shown = views @ in_container Page button, raised = err'\<rparr>))
      else \<lparr>shown = [], raised = None\<rparr>)"

section \<open>The script\<close>

text \<open>
  One run of the script on the loaded table and the values of the sidebar widgets: the
  three select boxes, the two sliders, the two buttons and the check box. The bound of the population slider, \<^verbatim>\<open>int(df['Population'].max())\<close>, is not a number
  for a table without rows. \<^verbatim>\<open>st.experimental_rerun()\<close> ends the run at once.
\<close>

definition page_notes :: "(container \<times> widget) list" where
  "page_notes =
     in_container Page
       [Text ''**Note:** The data is from Census 2011 and has not been updated since then.'',
        Text ''Size represents the primary parameter.'',
        Text ''Color represents the secondary parameter.'',
        Expander ''About this Project'']"

definition raw_data :: "dataframe \<Rightarrow> string \<Rightarrow> bool \<Rightarrow> (container \<times> widget) list" where
  "raw_data filtered_df selected_state show_raw_data =
     (if show_raw_data then
        in_container Page
          [Subheader ''Raw Data'',
           RawData (if selected_state = ''Overall India'' then filtered_df
                    else filter (\<lambda>r. State r = selected_state) filtered_df)]
      else [])"

definition script ::
    "dataframe \<Rightarrow> string \<Rightarrow> string \<Rightarrow> string \<Rightarrow> int \<Rightarrow> real \<Rightarrow> chart_kind \<Rightarrow> bool \<Rightarrow> bool \<Rightarrow> bool \<Rightarrow>
       outcome" where
  "script df selected_state primary secondary min_population min_literacy chart_type plot
       reset show_raw_data =
     (if df = [] then \<lparr>shown = [], raised = Some ValueError\<rparr>
      else if reset then \<lparr>shown = [], raised = Some RerunException\<rparr>
      else
        (let filtered_df = apply_filters df min_population min_literacy;
             out = plotting_logic filtered_df selected_state primary secondary chart_type plot
         in case raised out of
              Some e \<Rightarrow> \<lparr>shown = page_notes @ shown out, raised = Some e\<rparr>
            | None \<Rightarrow>
                \<lparr>shown = page_notes @ shown out @ raw_data filtered_df selected_state show_raw_data,
                 raised = None\<rparr>))"

section \<open>Reading a run\<close>

text \<open>Which chart a widget is, and the widgets a run wrote to one container.\<close>

fun chart_kind_of :: "widget \<Rightarrow> chart_kind option" where
  "chart_kind_of (BarChart _ _ _ _ _) = Some Bar"
| "chart_kind_of (PieChart _ _ _ _) = Some Pie"
| "chart_kind_of (BoxChart _ _ _ _ _) = Some Box"
| "chart_kind_of _ = None"

fun is_warning :: "widget \<Rightarrow> bool" where
  "is_warning (Warning _) = True"
| "is_warning _ = False"

fun is_table :: "widget \<Rightarrow> bool" where
  "is_table (Table _) = True"
| "is_table _ = False"

definition widgets_of :: "container \<Rightarrow> (container \<times> widget) list \<Rightarrow> widget list" where
  "widgets_of c ws = map snd (filter (\<lambda>p. fst p = c) ws)"

section \<open>Example tables\<close>

text \<open>
  A row with the given state, district, population and literacy rate; the other columns
  hold fixed values.
\<close>

definition example_row :: "string \<Rightarrow> string \<Rightarrow> real \<Rightarrow> real \<Rightarrow> census_record" where
  "example_row state district population literacy_rate =
     \<lparr>State = state, District = district, Latitude = 15, Longitude = 74,
      Population = population, Male = 0, Female = 0, Sex_Ratio = 0, Literate = 0,
      Male_Literate = 0, Female_Literate = 0, Literacy_Rate = literacy_rate,
      Female_Literacy_Rate = 0, SC = 0, ST = 0, SC_Proportion = 0, ST_Proportion = 0,
      Total_Power_Parity = 0, Power_Parity_Above_Rs_545000 = 0,
      Housholds_with_Electric_Lighting = 0,
      Having_latrine_facility_within_the_premises_Total_Households = 0\<rparr>"

definition example_table :: dataframe where
  "example_table =
     [example_row ''Goa'' ''North Goa'' 818008 89.57,
      example_row ''Bihar'' ''Patna'' 5838465 70.68,
      example_row ''Goa'' ''South Goa'' 640537 87.59,
      example_row ''Kerala'' ''Kannur'' 2523003 95.1,
      example_row ''Goa'' ''Panaji'' 114759 90.9]"

text \<open>Five districts of one state whose populations are 10, 50, 30, 50, 20 in table order.\<close>

definition tie_table :: dataframe where
  "tie_table =
     [example_row ''Goa'' ''A'' 10 80, example_row ''Goa'' ''B'' 50 80,
      example_row ''Goa'' ''C'' 30 80, example_row ''Goa'' ''D'' 50 80,
      example_row ''Goa'' ''E'' 20 80]"

section \<open>Evaluating the examples\<close>

lemma example_filter_kannur:
  "apply_filters example_table 1000000 90 = [example_row ''Kerala'' ''Kannur'' 2523003 95.1]"
  by (simp add: apply_filters_def example_table_def example_row_def)

lemma example_filter_two:
  "apply_filters example_table 600000 88 =
     [example_row ''Goa'' ''North Goa'' 818008 89.57,
      example_row ''Kerala'' ''Kannur'' 2523003 95.1]"
  by (simp add: apply_filters_def example_table_def example_row_def)

lemma example_goa:
  "fst (region_scope example_table ''Goa'') =
     [example_row ''Goa'' ''North Goa'' 818008 89.57,
      example_row ''Goa'' ''South Goa'' 640537 87.59,
      example_row ''Goa'' ''Panaji'' 114759 90.9]"
  by (simp add: region_scope_def example_table_def example_row_def)

lemma example_filter_none: "apply_filters example_table 0 100 = []"
  by (simp add: apply_filters_def example_table_def example_row_def)

lemma example_table_rows: "example_table \<noteq> []"
  by (simp add: example_table_def)

lemma goa_specific: "''Goa'' \<noteq> ''Overall India''"
  by simp

lemma example_goa_rows: "fst (region_scope example_table ''Goa'') \<noteq> []"
  by (simp add: example_goa)

lemma example_overall: "fst (region_scope example_table ''Overall India'') = example_table"
  by (simp add: region_scope_def)

lemma example_punjab: "fst (region_scope example_table ''Punjab'') = []"
  by (simp add: region_scope_def example_table_def example_row_def)

lemma example_bihar:
  "fst (region_scope example_table ''Bihar'') = [example_row ''Bihar'' ''Patna'' 5838465 70.68]"
  by (simp add: region_scope_def example_table_def example_row_def)

lemma example_totals:
  "sum_list (map Population example_table) = 9934772"
  "sum_list (map Literacy_Rate example_table) / real (length example_table) = 86.768"
  "real (length example_table) = 5"
  by (simp_all add: example_table_def example_row_def)

lemma population_is_primary: "''Population'' \<in> set primary_columns"
  by (simp add: primary_columns_def)

lemma column_population: "column ''Population'' = Some Population"
  by (simp add: column_def numeric_columns_def)

lemma third_column: "numeric_columns ! 2 = (''Population'', Population)"
  by (simp add: numeric_columns_def)

lemma columns_count: "length numeric_columns = 19"
  by (simp add: numeric_columns_def)

lemma numerical_cols_many: "length numerical_cols > 1"
  by (simp add: numerical_cols_def numeric_columns_def)

lemma primary_is_numeric:
  "primary \<in> set primary_columns \<Longrightarrow> \<exists>key. column primary = Some key"
  by (auto simp: primary_columns_def column_def numeric_columns_def)

section \<open>The filters\<close>

text \<open>
  C1. For every table and all valid thresholds (a minimum population of at least 0, a
  minimum literacy rate between 0 and 100) the filtered table is a part of the table, in
  table order, and every row of it has a population of at least the minimum population
  and a literacy rate of at least the minimum literacy rate.
\<close>

theorem filter_subset_thresholds:
  assumes "0 \<le> min_population" and "0 \<le> min_literacy" and "min_literacy \<le> 100"
  shows "subseq (apply_filters df min_population min_literacy) df
       \<and> set (apply_filters df min_population min_literacy) \<subseteq> set df
       \<and> (\<forall>r \<in> set (apply_filters df min_population min_literacy).
            Population r \<ge> of_int min_population \<and> Literacy_Rate r \<ge> min_literacy)"
  by (auto simp: apply_filters_def)

theorem filter_subset_thresholds_witness:
  "(0::int) \<le> 1000000 \<and> (0::real) \<le> 90 \<and> (90::real) \<le> 100
   \<and> apply_filters example_table 1000000 90 = [example_row ''Kerala'' ''Kannur'' 2523003 95.1]
   \<and> subseq (apply_filters example_table 1000000 90) example_table
   \<and> set (apply_filters example_table 1000000 90) \<subseteq> set example_table
   \<and> list_all (\<lambda>r. Population r \<ge> of_int 1000000 \<and> Literacy_Rate r \<ge> 90)
         (apply_filters example_table 1000000 90)"
  using filter_subset_thresholds [of 1000000 90 example_table] example_filter_kannur
  by (simp add: list_all_iff)

text \<open>
  C8. The filters are idempotent: filtering a filtered table again, with the same or
  with smaller thresholds, leaves it unchanged.
\<close>

theorem filter_idempotent:
  assumes "min_population' \<le> min_population" and "min_literacy' \<le> min_literacy"
  shows "apply_filters (apply_filters df min_population min_literacy)
           min_population' min_literacy'
         = apply_filters df min_population min_literacy"
proof -
  have "\<forall>r \<in> set (apply_filters df min_population min_literacy).
          Population r \<ge> of_int min_population' \<and> Literacy_Rate r \<ge> min_literacy'"
    using assms by (auto simp: apply_filters_def)
  then show ?thesis
    by (simp add: apply_filters_def [of "apply_filters df min_population min_literacy"])
qed

theorem filter_idempotent_witness:
  "(500000::int) \<le> 600000 \<and> (80::real) \<le> 88
   \<and> apply_filters example_table 600000 88 =
       [example_row ''Goa'' ''North Goa'' 818008 89.57,
        example_row ''Kerala'' ''Kannur'' 2523003 95.1]
   \<and> apply_filters (apply_filters example_table 600000 88) 500000 80
       = apply_filters example_table 600000 88"
  using filter_idempotent [of 500000 600000 80 88 example_table] example_filter_two
  by simp

section \<open>The region scope\<close>

text \<open>
  C3. For a selected state other than "Overall India" the region-restricted table is the
  rows of the filtered table whose state is the selected one, so every row of it has
  that state; for "Overall India" it is the filtered table, unchanged.
\<close>

theorem region_restriction:
  "(selected_state \<noteq> ''Overall India'' \<longrightarrow>
      fst (region_scope filtered_df selected_state)
        = filter (\<lambda>r. State r = selected_state) filtered_df
      \<and> (\<forall>r \<in> set (fst (region_scope filtered_df selected_state)). State r = selected_state))
   \<and> (selected_state = ''Overall India'' \<longrightarrow>
      fst (region_scope filtered_df selected_state) = filtered_df)"
  by (simp add: region_scope_def)

theorem region_restriction_witness:
  "fst (region_scope example_table ''Goa'') =
     [example_row ''Goa'' ''North Goa'' 818008 89.57,
      example_row ''Goa'' ''South Goa'' 640537 87.59,
      example_row ''Goa'' ''Panaji'' 114759 90.9]
   \<and> list_all (\<lambda>r. State r = ''Goa'') (fst (region_scope example_table ''Goa''))
   \<and> fst (region_scope example_table ''Overall India'') = example_table"
proof -
  have goa: "''Goa'' \<noteq> ''Overall India''" by simp
  show ?thesis
    unfolding list_all_iff
    using region_restriction [of "''Goa''" example_table]
      region_restriction [of "''Overall India''" example_table] goa example_goa
    by blast
qed

section \<open>The run under the Plot button\<close>

lemma widgets_of_append: "widgets_of c (xs @ ys) = widgets_of c xs @ widgets_of c ys"
  by (simp add: widgets_of_def)

lemma widgets_of_in_container:
  "widgets_of c (in_container c' ws) = (if c = c' then ws else [])"
  by (induction ws) (auto simp: widgets_of_def in_container_def)

lemma summary_stats_fallback:
  "selected_state = ''Overall India'' \<or> state_df = [] \<Longrightarrow> filtered_df \<noteq> [] \<Longrightarrow>
   summary_stats selected_state primary filtered_df state_df =
     ([Subheader ''Summary for Overall India'',
       Metric ''Total Population'' (Some (sum_list (map Population filtered_df))),
       Metric ''Average Literacy Rate''
         (Some (sum_list (map Literacy_Rate filtered_df) / real (length filtered_df))),
       Metric ''Total Districts'' (Some (real (length filtered_df)))], None)"
  by (auto simp: summary_stats_def series_sum_def series_mean_def)

lemma summary_stats_region:
  "selected_state \<noteq> ''Overall India'' \<Longrightarrow> state_df \<noteq> [] \<Longrightarrow> column primary = Some key \<Longrightarrow>
   summary_stats selected_state primary filtered_df state_df =
     ([Subheader (''Summary for '' @ selected_state),
       Metric ''Total Population'' (Some (sum_list (map Population state_df))),
       Metric ''Average Literacy Rate''
         (Some (sum_list (map Literacy_Rate state_df) / real (length state_df))),
       Metric ''Total Districts'' (Some (real (length state_df))),
       Subheader (''Top 5 Districts by '' @ primary),
       Table (map (\<lambda>r. (District r, key r)) (nlargest 5 key state_df))], None)"
  by (simp add: summary_stats_def series_sum_def series_mean_def top_districts_def)

lemma plotting_empty:
  "plotting_logic [] selected_state primary secondary chart_type True =
     \<lparr>shown = [(Page, Warning ''No data matches the selected filters. Please adjust the filters.'')],
      raised = Some (NameError ''state_df'')\<rparr>"
  by (simp add: plotting_logic_def render_tabs_def download_button_def in_container_def)

lemma plotting_nonempty:
  assumes "filtered_df \<noteq> []"
  shows "plotting_logic filtered_df selected_state primary secondary chart_type True =
     (let state_df = fst (region_scope filtered_df selected_state);
          views =
            in_container Tab1 (snd (map_tab filtered_df selected_state primary secondary)) @
            in_container Tab2 (charts_tab selected_state state_df primary secondary chart_type) @
            in_container Tab3 (correlation_heatmap state_df @
              fst (summary_stats selected_state primary filtered_df state_df))
      in case snd (summary_stats selected_state primary filtered_df state_df) of
           Some e \<Rightarrow> \<lparr>shown = views, raised = Some e\<rparr>
         | None \<Rightarrow>
             \<lparr>shown = views @ in_container Page
                (if state_df \<noteq> [] then
                   [DownloadButton ''Download Filtered Data'' (to_csv state_df)
                      (selected_state @ ''_filtered_data.csv'') ''text/csv'']
                 else []),
              raised = None\<rparr>)"
  using assms
  by (simp add: plotting_logic_def render_tabs_def map_tab_def summary_tab_def
        download_button_def case_prod_beta Let_def split: option.splits)

lemma plotting_no_region_rows:
  assumes "filtered_df \<noteq> []" and "fst (region_scope filtered_df selected_state) = []"
  shows "plotting_logic filtered_df selected_state primary secondary chart_type True =
     \<lparr>shown =
        in_container Tab1 (snd (map_tab filtered_df selected_state primary secondary)) @
        in_container Tab2 (charts_tab selected_state [] primary secondary chart_type) @
        in_container Tab3 (correlation_heatmap [] @
          fst (summary_stats selected_state primary filtered_df [])),
      raised = None\<rparr>"
  using assms summary_stats_fallback [of selected_state "[]" filtered_df primary]
  by (simp add: plotting_nonempty in_container_def)

lemma plotting_region_rows:
  assumes "fst (region_scope filtered_df selected_state) \<noteq> []"
    and "primary \<in> set primary_columns"
  shows "raised (plotting_logic filtered_df selected_state primary secondary chart_type True) = None
    \<and> widgets_of Page
         (shown (plotting_logic filtered_df selected_state primary secondary chart_type True))
       = [DownloadButton ''Download Filtered Data''
            (to_csv (fst (region_scope filtered_df selected_state)))
            (selected_state @ ''_filtered_data.csv'') ''text/csv'']"
proof -
  let ?state_df = "fst (region_scope filtered_df selected_state)"
  have ne: "filtered_df \<noteq> []"
    using assms(1) by (auto simp: region_scope_def split: if_splits)
  obtain key where key: "column primary = Some key"
    using primary_is_numeric [OF assms(2)] by blast
  have no_err: "snd (summary_stats selected_state primary filtered_df ?state_df) = None"
  proof (cases "selected_state = ''Overall India''")
    case True
    then show ?thesis using summary_stats_fallback [of selected_state ?state_df filtered_df primary] ne
      by simp
  next
    case False
    then show ?thesis
      using summary_stats_region [OF False assms(1) key, of filtered_df] by simp
  qed
  show ?thesis
    using assms(1) no_err
    by (simp add: plotting_nonempty [OF ne] Let_def widgets_of_append widgets_of_in_container)
qed

text \<open>
  C2. When the Plot button is pressed and no row passes the filters, the notice "No data
  matches the selected filters" is shown and nothing else happens: no map, chart, summary
  or download, and no failure. The script does not do this. No row of the example table
  has a literacy rate of 100, and the run with that minimum shows the notice and then
  stops with a NameError: the download check reads \<^verbatim>\<open>state_df\<close>, which only the map
  tab binds.
\<close>

theorem empty_selection_raises:
  "script example_table ''Overall India'' ''Population'' ''Literacy_Rate'' 0 100 Bar True False False
     = \<lparr>shown = page_notes @
          [(Page, Warning ''No data matches the selected filters. Please adjust the filters.'')],
        raised = Some (NameError ''state_df'')\<rparr>"
  by (simp add: script_def example_table_rows example_filter_none plotting_empty)

section \<open>The charts tab\<close>

text \<open>
  C5. The charts tab shows a chart, of the selected kind, only for a selected state other
  than "Overall India" whose region-restricted table has a row; in every other case it
  shows the notice that charts are available only for specific states. The tab is
  written with these widgets whenever the filtered table has a row.
\<close>

theorem charts_need_specific_region:
  "(selected_state \<noteq> ''Overall India'' \<and> state_df \<noteq> [] \<longrightarrow>
      map chart_kind_of (charts_tab selected_state state_df primary secondary chart_type)
        = [None, Some chart_type]
      \<and> (\<forall>w \<in> set (charts_tab selected_state state_df primary secondary chart_type).
            \<not> is_warning w))
   \<and> (\<not> (selected_state \<noteq> ''Overall India'' \<and> state_df \<noteq> []) \<longrightarrow>
      charts_tab selected_state state_df primary secondary chart_type
        = [Warning ''Charts are available only for specific states, not 'Overall India'.''])
   \<and> (filtered_df \<noteq> [] \<longrightarrow>
      widgets_of Tab2
        (shown (plotting_logic filtered_df selected_state primary secondary chart_type True))
      = charts_tab selected_state (fst (region_scope filtered_df selected_state))
          primary secondary chart_type)"
proof -
  have a: "selected_state \<noteq> ''Overall India'' \<and> state_df \<noteq> [] \<longrightarrow>
      map chart_kind_of (charts_tab selected_state state_df primary secondary chart_type)
        = [None, Some chart_type]
      \<and> (\<forall>w \<in> set (charts_tab selected_state state_df primary secondary chart_type).
            \<not> is_warning w)"
    by (cases chart_type) (simp_all add: charts_tab_def)
  have b: "\<not> (selected_state \<noteq> ''Overall India'' \<and> state_df \<noteq> []) \<longrightarrow>
      charts_tab selected_state state_df primary secondary chart_type
        = [Warning ''Charts are available only for specific states, not 'Overall India'.'']"
    by (simp add: charts_tab_def)
  have c: "widgets_of Tab2
        (shown (plotting_logic filtered_df selected_state primary secondary chart_type True))
      = charts_tab selected_state (fst (region_scope filtered_df selected_state))
          primary secondary chart_type" if ne: "filtered_df \<noteq> []"
    by (simp add: plotting_nonempty [OF ne] Let_def widgets_of_append
          widgets_of_in_container split: option.splits)
  from a b c show ?thesis by blast
qed

theorem charts_need_specific_region_witness:
  "map chart_kind_of
     (charts_tab ''Goa'' (fst (region_scope example_table ''Goa'')) ''Population''
        ''Literacy_Rate'' Pie) = [None, Some Pie]
   \<and> list_all (\<lambda>w. \<not> is_warning w)
       (charts_tab ''Goa'' (fst (region_scope example_table ''Goa'')) ''Population''
          ''Literacy_Rate'' Pie)
   \<and> charts_tab ''Overall India'' example_table ''Population'' ''Literacy_Rate'' Bar
       = [Warning ''Charts are available only for specific states, not 'Overall India'.'']
   \<and> widgets_of Tab2
       (shown (plotting_logic example_table ''Overall India'' ''Population'' ''Literacy_Rate''
          Bar True))
       = [Warning ''Charts are available only for specific states, not 'Overall India'.'']"
  unfolding list_all_iff
  using charts_need_specific_region [of "''Goa''" "fst (region_scope example_table ''Goa'')"
      "''Population''" "''Literacy_Rate''" Pie example_table]
    charts_need_specific_region [of "''Overall India''" example_table
      "''Population''" "''Literacy_Rate''" Bar example_table]
    goa_specific example_goa_rows example_overall example_table_rows
  by simp

section \<open>The summary tab\<close>

text \<open>
  C10. When a specific state is selected, the filtered table has a row and the
  region-restricted table has none, the summary tab shows the "Overall India" cards: the
  total population, the mean literacy rate and the number of rows of the whole filtered
  table. It shows no notice and no top-5 table.
\<close>

theorem summary_falls_back_to_overall:
  assumes "selected_state \<noteq> ''Overall India''" and "filtered_df \<noteq> []"
    and "fst (region_scope filtered_df selected_state) = []"
  shows "widgets_of Tab3
           (shown (plotting_logic filtered_df selected_state primary secondary chart_type True))
         = [Subheader ''Correlation Heatmap (Numerical Columns)'',
            Heatmap (corr []) (map short_label numerical_cols),
            Subheader ''Summary for Overall India'',
            Metric ''Total Population'' (Some (sum_list (map Population filtered_df))),
            Metric ''Average Literacy Rate''
              (Some (sum_list (map Literacy_Rate filtered_df) / real (length filtered_df))),
            Metric ''Total Districts'' (Some (real (length filtered_df)))]
       \<and> (\<forall>w \<in> set (widgets_of Tab3
             (shown (plotting_logic filtered_df selected_state primary secondary chart_type True))).
            \<not> is_warning w \<and> \<not> is_table w)"
proof -
  have tab3: "widgets_of Tab3
           (shown (plotting_logic filtered_df selected_state primary secondary chart_type True))
         = correlation_heatmap [] @ fst (summary_stats selected_state primary filtered_df [])"
    by (simp add: plotting_no_region_rows [OF assms(2,3)] widgets_of_append
          widgets_of_in_container)
  have stats: "fst (summary_stats selected_state primary filtered_df []) =
     [Subheader ''Summary for Overall India'',
       Metric ''Total Population'' (Some (sum_list (map Population filtered_df))),
       Metric ''Average Literacy Rate''
         (Some (sum_list (map Literacy_Rate filtered_df) / real (length filtered_df))),
       Metric ''Total Districts'' (Some (real (length filtered_df)))]"
    using summary_stats_fallback [of selected_state "[]" filtered_df primary] assms(2) by simp
  have heat: "correlation_heatmap [] =
      [Subheader ''Correlation Heatmap (Numerical Columns)'',
       Heatmap (corr []) (map short_label numerical_cols)]"
    using numerical_cols_many by (simp add: correlation_heatmap_def)
  show ?thesis
    unfolding tab3 stats heat by simp
qed

theorem summary_falls_back_to_overall_witness:
  "''Punjab'' \<noteq> ''Overall India'' \<and> example_table \<noteq> []
   \<and> fst (region_scope example_table ''Punjab'') = []
   \<and> widgets_of Tab3
        (shown (plotting_logic example_table ''Punjab'' ''Population'' ''Literacy_Rate'' Bar True))
      = [Subheader ''Correlation Heatmap (Numerical Columns)'',
         Heatmap (corr []) (map short_label numerical_cols),
         Subheader ''Summary for Overall India'',
         Metric ''Total Population'' (Some 9934772),
         Metric ''Average Literacy Rate'' (Some 86.768),
         Metric ''Total Districts'' (Some 5)]
   \<and> list_all (\<lambda>w. \<not> is_warning w \<and> \<not> is_table w)
        (widgets_of Tab3
           (shown (plotting_logic example_table ''Punjab'' ''Population'' ''Literacy_Rate'' Bar
              True)))"
proof -
  have punjab: "''Punjab'' \<noteq> ''Overall India''" by simp
  show ?thesis
    unfolding list_all_iff
    using summary_falls_back_to_overall [OF punjab example_table_rows example_punjab,
        of "''Population''" "''Literacy_Rate''" Bar]
      punjab example_table_rows example_punjab example_totals
    by simp
qed

subsection \<open>Top five districts\<close>

lemma nlargest_length: "length (nlargest n key frame) = min n (length frame)"
  by (simp add: nlargest_def)

lemma nlargest_descending:
  "sorted_wrt (\<lambda>a b. a \<ge> b) (map key (nlargest n key frame))"
proof -
  have "sorted (map (\<lambda>r. - key r) (sort_key (\<lambda>r. - key r) frame))"
    by (rule sorted_sort_key)
  then have "sorted_wrt (\<lambda>r r'. key r \<ge> key r') (sort_key (\<lambda>r. - key r) frame)"
    by (simp add: sorted_wrt_map)
  then have "sorted_wrt (\<lambda>r r'. key r \<ge> key r') (nlargest n key frame)"
    unfolding nlargest_def by (rule sorted_wrt_take)
  then show ?thesis
    by (simp add: sorted_wrt_map)
qed

lemma nlargest_stable:
  "prefix (filter (\<lambda>r. key r = v) (nlargest n key frame)) (filter (\<lambda>r. key r = v) frame)"
proof -
  have "prefix (nlargest n key frame) (sort_key (\<lambda>r. - key r) frame)"
    unfolding nlargest_def by (rule take_is_prefix)
  then have "prefix (filter (\<lambda>r. key r = v) (nlargest n key frame))
               (filter (\<lambda>r. key r = v) (sort_key (\<lambda>r. - key r) frame))"
    by (rule filter_mono_prefix)
  moreover have "filter (\<lambda>r. - key r = - v) (sort_key (\<lambda>r. - key r) frame)
                   = filter (\<lambda>r. - key r = - v) frame"
    by (rule sort_key_stable)
  ultimately show ?thesis by simp
qed

lemma nlargest_largest:
  "\<exists>rest. mset (nlargest n key frame @ rest) = mset frame
     \<and> (\<forall>t \<in> set (nlargest n key frame). \<forall>r \<in> set rest. key r \<le> key t)"
proof -
  let ?s = "sort_key (\<lambda>r. - key r) frame"
  have "sorted (map (\<lambda>r. - key r) (take n ?s @ drop n ?s))"
    by (simp add: sorted_sort_key del: sorted_map)
  then have "\<forall>t \<in> set (take n ?s). \<forall>r \<in> set (drop n ?s). key r \<le> key t"
    by (simp only: map_append sorted_append) auto
  moreover have "mset (take n ?s @ drop n ?s) = mset frame"
    by simp
  ultimately show ?thesis
    unfolding nlargest_def by blast
qed

lemma tie_table_top:
  "nlargest 5 Population tie_table =
     [example_row ''Goa'' ''B'' 50 80, example_row ''Goa'' ''D'' 50 80,
      example_row ''Goa'' ''C'' 30 80, example_row ''Goa'' ''E'' 20 80,
      example_row ''Goa'' ''A'' 10 80]"
  by (simp add: nlargest_def tie_table_def example_row_def)

text \<open>
  C4. For a numeric primary column the top-5 table holds the district and the value of
  at most five rows, five or all the rows of the region-restricted table, ranked by
  descending value; rows of equal value keep their table order, and no row left out has
  a larger value than a row of the table. For the values 10, 50, 30, 50, 20 the ranking
  is 50, 50, 30, 20, 10, the two rows of value 50 in their table order.
\<close>

theorem top_five_ranked:
  assumes "column primary = Some key"
  shows "top_districts primary state_df
           = Inr (map (\<lambda>r. (District r, key r)) (nlargest 5 key state_df))
    \<and> length (nlargest 5 key state_df) = min 5 (length state_df)
    \<and> sorted_wrt (\<lambda>a b. a \<ge> b) (map key (nlargest 5 key state_df))
    \<and> (\<forall>v. prefix (filter (\<lambda>r. key r = v) (nlargest 5 key state_df))
               (filter (\<lambda>r. key r = v) state_df))
    \<and> (\<exists>rest. mset (nlargest 5 key state_df @ rest) = mset state_df
          \<and> (\<forall>t \<in> set (nlargest 5 key state_df). \<forall>r \<in> set rest. key r \<le> key t))"
  using assms nlargest_length [of 5 key state_df] nlargest_descending [of key 5 state_df]
    nlargest_stable [of key _ 5 state_df] nlargest_largest [of 5 key state_df]
  by (simp add: top_districts_def)

theorem top_five_ranked_witness:
  "column ''Population'' = Some Population
   \<and> map Population tie_table = [10, 50, 30, 50, 20]
   \<and> top_districts ''Population'' tie_table
       = Inr [(''B'', 50), (''D'', 50), (''C'', 30), (''E'', 20), (''A'', 10)]
   \<and> length (nlargest 5 Population tie_table) = 5
   \<and> sorted_wrt (\<lambda>a b. a \<ge> b) (map Population (nlargest 5 Population tie_table))
   \<and> prefix (filter (\<lambda>r. Population r = 50) (nlargest 5 Population tie_table))
       (filter (\<lambda>r. Population r = 50) tie_table)"
proof -
  have vals: "map Population tie_table = [10, 50, 30, 50, 20]"
    by (simp add: tie_table_def example_row_def)
  have top: "map (\<lambda>r. (District r, Population r)) (nlargest 5 Population tie_table)
      = [(''B'', 50), (''D'', 50), (''C'', 30), (''E'', 20), (''A'', 10)]"
    by (simp add: tie_table_top example_row_def)
  have len: "length tie_table = 5"
    by (simp add: tie_table_def)
  show ?thesis
    using top_five_ranked [OF column_population, of tie_table] column_population vals top len
    by simp
qed

subsection \<open>Correlation matrix\<close>

lemma corr_entry:
  assumes "i < length numeric_columns" and "j < length numeric_columns"
  shows "corr frame ! i ! j =
     pearson (map (snd (numeric_columns ! i)) frame) (map (snd (numeric_columns ! j)) frame)"
  using assms by (simp add: corr_def case_prod_beta)

lemma sum_list_zip_swap:
  "length xs = length ys \<Longrightarrow>
   (\<Sum>(x, y)\<leftarrow>zip xs ys. f x y) = (\<Sum>(y, x)\<leftarrow>zip ys xs. f x y)"
  by (induction xs ys rule: list_induct2) simp_all

lemma pearson_commute:
  assumes "length xs = length ys"
  shows "pearson xs ys = pearson ys xs"
proof -
  have empty: "xs = [] \<longleftrightarrow> ys = []"
    using assms by (cases xs; cases ys) simp_all
  have cov: "(\<Sum>(x, y)\<leftarrow>zip xs ys. (x - a) * (y - b)) = (\<Sum>(y, x)\<leftarrow>zip ys xs. (y - b) * (x - a))"
    for a b :: real
    using sum_list_zip_swap [OF assms, of "\<lambda>x y. (x - a) * (y - b)"]
    by (simp add: mult.commute)
  show ?thesis
    unfolding pearson_def Let_def
    by (simp only: assms empty cov mult.commute [of "\<Sum>x\<leftarrow>xs. _ x"])
qed

lemma sum_list_constant:
  "(\<forall>x \<in> set xs. x = c) \<Longrightarrow> sum_list xs = real (length xs) * c"
  by (induction xs) (simp_all add: algebra_simps)

lemma mean_of_constant:
  assumes "xs \<noteq> []" and "\<forall>x \<in> set xs. \<forall>y \<in> set xs. x = y"
  shows "\<forall>x \<in> set xs. x = sum_list xs / real (length xs)"
proof -
  obtain c where c: "c \<in> set xs"
    using assms(1) by (cases xs) auto
  have all: "\<forall>x \<in> set xs. x = c"
    using assms(2) c by blast
  have "sum_list xs / real (length xs) = c"
    using sum_list_constant [OF all] assms(1) by simp
  then show ?thesis
    using all by simp
qed

lemma squares_zero_iff:
  "(\<Sum>x\<leftarrow>xs. (x - m) * (x - m)) = 0 \<longleftrightarrow> (\<forall>x \<in> set xs. x = m)" for m :: real
proof -
  have "sum_list (map (\<lambda>x. (x - m) * (x - m)) xs) = 0
          \<longleftrightarrow> (\<forall>v \<in> set (map (\<lambda>x. (x - m) * (x - m)) xs). v = 0)"
    by (rule sum_list_nonneg_eq_0_iff) auto
  then show ?thesis by auto
qed

lemma pearson_self:
  "pearson xs xs = (if \<exists>x \<in> set xs. \<exists>y \<in> set xs. x \<noteq> y then Some 1 else None)"
proof -
  define m where "m = sum_list xs / real (length xs)"
  define ss where "ss = (\<Sum>x\<leftarrow>xs. (x - m) * (x - m))"
  have cov: "(\<Sum>(x, y)\<leftarrow>zip xs xs. (x - m) * (y - m)) = ss"
    by (simp add: ss_def zip_same_conv_map comp_def)
  have nonneg: "0 \<le> ss"
    unfolding ss_def by (rule sum_list_nonneg) auto
  have root: "sqrt (ss * ss) = ss"
    using nonneg by simp
  have unfolded: "pearson xs xs = (if xs = [] \<or> ss = 0 then None else Some (ss / ss))"
    unfolding pearson_def Let_def m_def [symmetric] ss_def [symmetric] cov root ..
  show ?thesis
  proof (cases "\<exists>x \<in> set xs. \<exists>y \<in> set xs. x \<noteq> y")
    case True
    then have "xs \<noteq> []" by auto
    moreover have "ss \<noteq> 0"
    proof
      assume "ss = 0"
      then have "\<forall>x \<in> set xs. x = m"
        by (simp add: ss_def squares_zero_iff)
      with True show False by metis
    qed
    ultimately show ?thesis
      using True by (simp add: unfolded)
  next
    case False
    have "xs = [] \<or> ss = 0"
    proof (cases "xs = []")
      case False
      with \<open>\<not> (\<exists>x \<in> set xs. \<exists>y \<in> set xs. x \<noteq> y)\<close>
      have "\<forall>x \<in> set xs. x = m"
        unfolding m_def using mean_of_constant [of xs] by blast
      then show ?thesis
        by (simp add: ss_def squares_zero_iff)
    qed simp
    then show ?thesis
      using False by (simp add: unfolded)
  qed
qed

lemma pearson_single: "pearson [x] [x] = None"
  by (simp add: pearson_def)

text \<open>
  C6, as the claim states it: every diagonal entry of the correlation matrix is 1. It is
  not for a table with the one district of Bihar: the entry of the population column is
  NaN.
\<close>

theorem single_district_diagonal:
  "corr (fst (region_scope example_table ''Bihar'')) ! 2 ! 2 \<noteq> Some 1"
  by (simp add: corr_entry columns_count third_column example_bihar pearson_single)

text \<open>
  C6, amended. The correlation matrix is symmetric, and the diagonal entry of a numeric
  column is 1 when the column takes two different values in the table, and NaN when it
  does not, as in a table with one row or none.
\<close>

theorem corr_symmetric_diagonal:
  assumes "i < length numeric_columns" and "j < length numeric_columns"
  shows "corr frame ! i ! j = corr frame ! j ! i
    \<and> corr frame ! i ! i =
        (if \<exists>r \<in> set frame. \<exists>r' \<in> set frame.
              snd (numeric_columns ! i) r \<noteq> snd (numeric_columns ! i) r'
         then Some 1 else None)"
proof -
  have "corr frame ! i ! j = corr frame ! j ! i"
    by (simp add: corr_entry assms pearson_commute)
  moreover have "corr frame ! i ! i =
        (if \<exists>r \<in> set frame. \<exists>r' \<in> set frame.
              snd (numeric_columns ! i) r \<noteq> snd (numeric_columns ! i) r'
         then Some 1 else None)"
    by (simp add: corr_entry assms pearson_self)
  ultimately show ?thesis ..
qed

theorem corr_symmetric_diagonal_witness:
  "(2::nat) < length numeric_columns \<and> (9::nat) < length numeric_columns
   \<and> corr example_table ! 2 ! 9 = corr example_table ! 9 ! 2
   \<and> corr example_table ! 2 ! 2 = Some 1
   \<and> corr (fst (region_scope example_table ''Bihar'')) ! 2 ! 2 = None"
proof -
  have two: "(2::nat) < length numeric_columns" and nine: "(9::nat) < length numeric_columns"
    by (simp_all add: columns_count)
  have goa: "example_row ''Goa'' ''North Goa'' 818008 89.57 \<in> set example_table"
    and bihar: "example_row ''Bihar'' ''Patna'' 5838465 70.68 \<in> set example_table"
    by (simp_all add: example_table_def)
  have "snd (numeric_columns ! 2) (example_row ''Goa'' ''North Goa'' 818008 89.57)
          \<noteq> snd (numeric_columns ! 2) (example_row ''Bihar'' ''Patna'' 5838465 70.68)"
    by (simp add: third_column example_row_def)
  with goa bihar have varies: "\<exists>r \<in> set example_table. \<exists>r' \<in> set example_table.
      snd (numeric_columns ! 2) r \<noteq> snd (numeric_columns ! 2) r'"
    by blast
  have single: "\<not> (\<exists>r \<in> set (fst (region_scope example_table ''Bihar'')).
      \<exists>r' \<in> set (fst (region_scope example_table ''Bihar'')).
      snd (numeric_columns ! 2) r \<noteq> snd (numeric_columns ! 2) r')"
    by (simp add: example_bihar)
  show ?thesis
    using corr_symmetric_diagonal [OF two nine, of example_table]
      corr_symmetric_diagonal [OF two two, of "fst (region_scope example_table ''Bihar'')"]
      two nine varies single
    by simp
qed

section \<open>The download\<close>

lemma inj_csv_row: "csv_row r = csv_row r' \<Longrightarrow> r = r'"
  by (cases r, cases r') (simp add: csv_row_def numeric_columns_def)

text \<open>
  C7. When the Plot button is pressed, the region-restricted table has a row and the
  primary column is one of the select box, the run ends without exception and offers one
  download. Its data is the header row followed by one row for each row of the
  region-restricted table, in order, different rows giving different data rows, so it has
  one row more than the table; its file name contains the selected state.
\<close>

theorem export_serializes_subset:
  assumes "state_df = fst (region_scope filtered_df selected_state)"
    and "state_df \<noteq> []" and "primary \<in> set primary_columns"
  shows "raised (plotting_logic filtered_df selected_state primary secondary chart_type True) = None
    \<and> widgets_of Page
         (shown (plotting_logic filtered_df selected_state primary secondary chart_type True))
       = [DownloadButton ''Download Filtered Data'' (to_csv state_df)
            (selected_state @ ''_filtered_data.csv'') ''text/csv'']
    \<and> length (to_csv state_df) = length state_df + 1
    \<and> hd (to_csv state_df) = csv_header
    \<and> tl (to_csv state_df) = map csv_row state_df
    \<and> inj csv_row
    \<and> sublist selected_state (selected_state @ ''_filtered_data.csv'')"
proof -
  have "inj csv_row"
    by (rule injI) (rule inj_csv_row)
  moreover have "sublist selected_state (selected_state @ ''_filtered_data.csv'')"
    unfolding sublist_def by (metis append_Nil)
  ultimately show ?thesis
    using plotting_region_rows [of filtered_df selected_state primary secondary chart_type] assms
    by (simp add: to_csv_def)
qed

theorem export_serializes_subset_witness:
  "fst (region_scope example_table ''Goa'') \<noteq> [] \<and> ''Population'' \<in> set primary_columns
   \<and> length (fst (region_scope example_table ''Goa'')) = 3
   \<and> raised (plotting_logic example_table ''Goa'' ''Population'' ''Literacy_Rate'' Bar True) = None
   \<and> widgets_of Page
        (shown (plotting_logic example_table ''Goa'' ''Population'' ''Literacy_Rate'' Bar True))
      = [DownloadButton ''Download Filtered Data''
           (to_csv (fst (region_scope example_table ''Goa'')))
           ''Goa_filtered_data.csv'' ''text/csv'']
   \<and> length (to_csv (fst (region_scope example_table ''Goa''))) = 4
   \<and> sublist ''Goa'' ''Goa_filtered_data.csv''"
proof -
  have len: "length (fst (region_scope example_table ''Goa'')) = 3"
    by (simp add: example_goa)
  show ?thesis
    using export_serializes_subset [OF refl example_goa_rows population_is_primary,
        of "''Literacy_Rate''" Bar]
      example_goa_rows population_is_primary len
    by simp
qed

end
